theory Spec2Isabelle
  imports Main "HOL-Library.Word"
begin

section \<open>JavaScript strings\<close>

text \<open>
  A JavaScript string is a sequence of UTF-16 code units. String literals of the source
  that are plain ASCII are written through \<open>js\<close>; the non-ASCII prefixes of the source's
  literals are given by their code units, as the source file holds them.
\<close>

type_synonym jsstring = "16 word list"

definition js :: "string \<Rightarrow> jsstring" where
  "js s = map of_char s"

text \<open>
  \<open>String.prototype.trim\<close> removes, from both ends, the code units that are
  WhiteSpace or LineTerminator in ECMAScript: TAB, LF, VT, FF, CR, SP, NBSP, U+1680,
  U+2000 to U+200A, U+2028, U+2029, U+202F, U+205F, U+3000 and U+FEFF.
\<close>

definition is_ws :: "16 word \<Rightarrow> bool" where
  "is_ws u = (u = 0x9 \<or> u = 0xA \<or> u = 0xB \<or> u = 0xC \<or> u = 0xD \<or> u = 0x20 \<or> u = 0xA0
     \<or> u = 0x1680 \<or> (0x2000 \<le> u \<and> u \<le> 0x200A) \<or> u = 0x2028 \<or> u = 0x2029
     \<or> u = 0x202F \<or> u = 0x205F \<or> u = 0x3000 \<or> u = 0xFEFF)"

definition trim :: "jsstring \<Rightarrow> jsstring" where
  "trim s = rev (dropWhile is_ws (rev (dropWhile is_ws s)))"

text \<open>\<open>starts_with s p\<close>: \<open>p\<close> is a prefix of \<open>s\<close>.\<close>

fun starts_with :: "jsstring \<Rightarrow> jsstring \<Rightarrow> bool" where
  "starts_with s [] = True"
| "starts_with [] (p # ps) = False"
| "starts_with (c # cs) (p # ps) = (c = p \<and> starts_with cs ps)"

text \<open>\<open>String.prototype.includes\<close>: \<open>p\<close> occurs in \<open>s\<close> as a contiguous substring.\<close>

fun includes_str :: "jsstring \<Rightarrow> jsstring \<Rightarrow> bool" where
  "includes_str [] p = (p = [])"
| "includes_str (c # cs) p = (starts_with (c # cs) p \<or> includes_str cs p)"

section \<open>Data model\<close>

text \<open>
  The payloads of the remote service, typed as the service contract gives them; an
  absent (undefined) field is \<open>None\<close>. Numbers are integers (the value of the double
  that holds them). Of the analysis payload only
  the fields the controller and the classifier read are kept; \<open>detail\<close> is the field of an
  error body.
\<close>

record health =
  status :: jsstring
  api_key_configured :: "bool option"
  health_error :: "jsstring option"

record rate_limit_data =
  is_limited :: bool
  message :: "jsstring option"
  seconds_remaining :: "int option"

record payload =
  detail :: "jsstring option"
  consensus_recommendation :: jsstring
  consensus_confidence :: int

text \<open>
  What \<open>fetch\<close> followed by \<open>response.json()\<close> can give: the fetch promise rejects
  (with the error's message), or a response with an HTTP status arrives whose body either
  fails to parse (with the message of the error thrown) or parses to an object of the
  shape the contract gives.
\<close>

datatype 'a parsed = NotJson jsstring | Json 'a

datatype 'a fetch_result = Rejected jsstring | Response nat "'a parsed"

definition ok :: "nat \<Rightarrow> bool" where
  "ok st = (200 \<le> st \<and> st \<le> 299)"

text \<open>The network calls the component issues; \<open>PostAnalyze\<close> carries the \<open>stock_name\<close> of its body.\<close>

datatype request = GetHealth | GetRateLimit | PostAnalyze jsstring

text \<open>The seven \<open>useState\<close> cells of \<open>StockAnalysisApp\<close>; \<open>null\<close> is \<open>None\<close>.\<close>

record app_state =
  stockName :: jsstring
  loading :: bool
  analysis :: "payload option"
  error :: jsstring
  backendStatus :: "health option"
  rateLimit :: "rate_limit_data option"
  countdown :: int

definition initial_state :: app_state where
  "initial_state = \<lparr>stockName = [], loading = False, analysis = None, error = [],
     backendStatus = None, rateLimit = None, countdown = 0\<rparr>"

section \<open>Probes\<close>

definition checkBackendHealth :: "app_state \<Rightarrow> health fetch_result \<Rightarrow> app_state \<times> request list" where
  "checkBackendHealth s r =
     (case r of
        Response st (Json data) \<Rightarrow> s\<lparr>backendStatus := Some data\<rparr>
      | Response st (NotJson m) \<Rightarrow>
          s\<lparr>backendStatus := Some \<lparr>status = js ''offline'', api_key_configured = None, health_error = Some m\<rparr>\<rparr>
      | Rejected m \<Rightarrow>
          s\<lparr>backendStatus := Some \<lparr>status = js ''offline'', api_key_configured = None, health_error = Some m\<rparr>\<rparr>,
      [GetHealth])"

text \<open>
  \<open>checkRateLimit\<close>: one request; the parsed body replaces \<open>rateLimit\<close>, and the countdown
  is set only under \<open>data.is_limited && data.seconds_remaining\<close> (a number is truthy when
  it is not 0). The \<open>catch\<close> branch sets the fixed fail-open status.
\<close>

definition rate_limit_unavailable :: rate_limit_data where
  "rate_limit_unavailable =
     \<lparr>is_limited = False, message = Some (js ''Rate limit check unavailable''), seconds_remaining = None\<rparr>"

definition checkRateLimit :: "app_state \<Rightarrow> rate_limit_data fetch_result \<Rightarrow> app_state \<times> request list" where
  "checkRateLimit s r =
     (case r of
        Response st (Json data) \<Rightarrow>
          (case seconds_remaining data of
             Some n \<Rightarrow>
               if is_limited data \<and> n \<noteq> 0
               then s\<lparr>rateLimit := Some data, countdown := n\<rparr>
               else s\<lparr>rateLimit := Some data\<rparr>
           | None \<Rightarrow> s\<lparr>rateLimit := Some data\<rparr>)
      | Response st (NotJson m) \<Rightarrow> s\<lparr>rateLimit := Some rate_limit_unavailable\<rparr>
      | Rejected m \<Rightarrow> s\<lparr>rateLimit := Some rate_limit_unavailable\<rparr>,
      [GetRateLimit])"

section \<open>Countdown\<close>






section \<open>Analysis request\<close>

text \<open>The non-ASCII prefix of the two advisory messages, as the source file holds it.\<close>

definition warn :: jsstring where
  "warn = [0x201A, 0xF6, 0x2020, 0xD4, 0x220F, 0xE8]"

text \<open>\<open>errorData.detail || 'Analysis failed'\<close>: an absent or empty detail is falsy.\<close>

definition error_data_message :: "payload \<Rightarrow> jsstring" where
  "error_data_message errorData =
     (case detail errorData of
        None \<Rightarrow> js ''Analysis failed''
      | Some d \<Rightarrow> if d = [] then js ''Analysis failed'' else d)"

text \<open>
  The \<open>try\<close> block from the resolution of \<open>fetch\<close> on: \<open>Inl m\<close> is an error thrown with
  message \<open>m\<close>, \<open>Inr data\<close> the analysis stored. The state and the requests are those of
  the awaited \<open>checkRateLimit\<close>, which runs only on a parsed body with status 429.
\<close>

definition analyzeStock_try ::
  "app_state \<Rightarrow> payload fetch_result \<Rightarrow> rate_limit_data fetch_result
    \<Rightarrow> (jsstring + payload) \<times> app_state \<times> request list" where
  "analyzeStock_try s resp rl =
     (case resp of
        Rejected m \<Rightarrow> (Inl m, s, [])
      | Response st body \<Rightarrow>
          if \<not> ok st then
            (case body of
               NotJson m \<Rightarrow> (Inl m, s, [])
             | Json errorData \<Rightarrow>
                 if st = 429
                 then (case checkRateLimit s rl of (s1, rq) \<Rightarrow> (Inl (error_data_message errorData), s1, rq))
                 else (Inl (error_data_message errorData), s, []))
          else
            (case body of
               NotJson m \<Rightarrow> (Inl m, s, [])
             | Json data \<Rightarrow> (Inr data, s, [])))"

text \<open>The \<open>catch\<close> block: the message shown for an error thrown with message \<open>m\<close>.\<close>

definition analyzeStock_catch :: "jsstring \<Rightarrow> jsstring" where
  "analyzeStock_catch m =
     (if includes_str m (js ''Failed to fetch'')
      then warn @ js '' Cannot connect to backend server. Is backend running?''
      else if includes_str m (js ''API key'')
      then warn @ js '' API key not configured.''
      else js ''Analysis error occurred. '' @ m)"

text \<open>
  \<open>analyzeStock\<close> up to its first \<open>await\<close>: \<open>Inl\<close> is the early return on an input that
  is empty after trimming, \<open>Inr\<close> the state while the request is in flight, with the request.
  The body sent is \<open>{stock_name: stockName}\<close>.
\<close>

definition analyzeStock_begin :: "app_state \<Rightarrow> app_state + app_state \<times> request" where
  "analyzeStock_begin s =
     (if trim (stockName s) = []
      then Inl (s\<lparr>error := js ''Please enter a stock name''\<rparr>)
      else Inr (s\<lparr>loading := True, error := [], analysis := None\<rparr>, PostAnalyze (stockName s)))"

text \<open>The rest of \<open>analyzeStock\<close>, from the in-flight state: \<open>try\<close>, \<open>catch\<close>, \<open>finally\<close>.\<close>

definition analyzeStock_resume ::
  "app_state \<Rightarrow> payload fetch_result \<Rightarrow> rate_limit_data fetch_result \<Rightarrow> app_state \<times> request list" where
  "analyzeStock_resume p resp rl =
     (case analyzeStock_try p resp rl of
        (Inr data, s1, rq) \<Rightarrow> (s1\<lparr>analysis := Some data, loading := False\<rparr>, rq)
      | (Inl m, s1, rq) \<Rightarrow> (s1\<lparr>error := analyzeStock_catch m, loading := False\<rparr>, rq))"

definition analyzeStock ::
  "app_state \<Rightarrow> payload fetch_result \<Rightarrow> rate_limit_data fetch_result \<Rightarrow> app_state \<times> request list" where
  "analyzeStock s resp rl =
     (case analyzeStock_begin s of
        Inl s1 \<Rightarrow> (s1, [])
      | Inr (p, req) \<Rightarrow>
          (case analyzeStock_resume p resp rl of (s2, rq) \<Rightarrow> (s2, req # rq)))"

section \<open>Admission gate\<close>

text \<open>\<open>backendStatus?.status === 'healthy'\<close> and \<open>rateLimit?.is_limited\<close>.\<close>

definition healthy :: "app_state \<Rightarrow> bool" where
  "healthy s = (case backendStatus s of None \<Rightarrow> False | Some h \<Rightarrow> status h = js ''healthy'')"

definition limited :: "app_state \<Rightarrow> bool" where
  "limited s = (case rateLimit s of None \<Rightarrow> False | Some r \<Rightarrow> is_limited r)"

text \<open>The \<open>disabled\<close> attribute of the Analyze button.\<close>

definition button_disabled :: "app_state \<Rightarrow> bool" where
  "button_disabled s = (loading s \<or> \<not> healthy s \<or> limited s)"

text \<open>A click on the Analyze button: a disabled button does not run \<open>onClick\<close>.\<close>

definition clickAnalyze ::
  "app_state \<Rightarrow> payload fetch_result \<Rightarrow> rate_limit_data fetch_result \<Rightarrow> app_state \<times> request list" where
  "clickAnalyze s resp rl = (if button_disabled s then (s, []) else analyzeStock s resp rl)"

definition handleKeyPress ::
  "app_state \<Rightarrow> jsstring \<Rightarrow> payload fetch_result \<Rightarrow> rate_limit_data fetch_result
    \<Rightarrow> app_state \<times> request list" where
  "handleKeyPress s key resp rl =
     (if key = js ''Enter'' \<and> \<not> loading s \<and> healthy s \<and> \<not> limited s
      then analyzeStock s resp rl else (s, []))"

section \<open>Recommendation classifier\<close>

datatype icon = ThumbsUp | ThumbsDown | Info

record rec_style =
  color :: jsstring
  bg :: jsstring
  icon :: icon

definition getRecommendationStyle :: "jsstring \<Rightarrow> rec_style" where
  "getRecommendationStyle rec =
     (if rec = js ''BUY'' \<or> rec = js ''HOLD''
      then \<lparr>color = js ''text-green-400'', bg = js ''bg-green-500/20'', icon = ThumbsUp\<rparr>
      else if rec = js ''SELL''
      then \<lparr>color = js ''text-red-400'', bg = js ''bg-red-500/20'', icon = ThumbsDown\<rparr>
      else \<lparr>color = js ''text-yellow-400'', bg = js ''bg-yellow-500/20'', icon = Info\<rparr>)"

text \<open>\<open>recStyle\<close>, computed from the stored analysis, and the border class of the result card.\<close>

definition recStyle :: "payload \<Rightarrow> rec_style" where
  "recStyle a = getRecommendationStyle (consensus_recommendation a)"

definition border_class :: "payload \<Rightarrow> jsstring" where
  "border_class a =
     (if consensus_recommendation a = js ''BUY'' \<or> consensus_recommendation a = js ''HOLD''
      then js ''border-green-400/50'' else js ''border-red-400/50'')"

text \<open>The non-ASCII prefixes of the labels and guidance lines, as the source file holds them.\<close>

definition fire :: jsstring where
  "fire = [0xF8FF, 0xFC, 0xEE, 0x2022]"

definition rocket :: jsstring where
  "rocket = [0xF8FF, 0xFC, 0xF6, 0xC4]"

definition check_mark :: jsstring where
  "check_mark = [0x201A, 0xFA, 0xD6]"

definition cross_mark :: jsstring where
  "cross_mark = [0x201A, 0xF9, 0xE5]"

definition bullet :: jsstring where
  "bullet = [0x201A, 0xC4, 0xA2]"

definition label_STRONG :: jsstring where
  "label_STRONG = fire @ js '' STRONG''"

definition label_MODERATE_STRONG :: jsstring where
  "label_MODERATE_STRONG = check_mark @ js '' MODERATE-STRONG''"

definition label_MODERATE :: jsstring where
  "label_MODERATE = warn @ js '' MODERATE''"

definition label_WEAK :: jsstring where
  "label_WEAK = warn @ js '' WEAK''"

definition label_STRONG_CAUTION :: jsstring where
  "label_STRONG_CAUTION = cross_mark @ js '' STRONG CAUTION''"

text \<open>The strength label shown before the word Recommendation: a chain on the confidence.\<close>

definition strength_label :: "int \<Rightarrow> jsstring" where
  "strength_label c =
     (if c \<ge> 75 then label_STRONG
      else if c \<ge> 60 then label_MODERATE_STRONG
      else if c \<ge> 45 then label_MODERATE
      else if c \<ge> 30 then label_WEAK
      else label_STRONG_CAUTION)"

text \<open>
  A guidance line is the list of the children of one \<open>p\<close> element: literal text and the
  interpolated confidence. The five guidance blocks are independent conditionals, each
  rendered when its own test holds, in source order.
\<close>

datatype child = Text jsstring | Num int

definition guidance :: "payload \<Rightarrow> child list list" where
  "guidance a =
     (if consensus_confidence a \<ge> 75 \<and> consensus_recommendation a = js ''BUY'' then
        [[Text (rocket @ js '' STRONG BUY - Excellent opportunity!'')],
         [Text (bullet @ js '' ''), Num (consensus_confidence a), Text (js ''% confidence - Very strong signal'')],
         [Text (bullet @ js '' Consider buying if you don'' @ [0x27] @ js ''t own it'')],
         [Text (bullet @ js '' Best for long-term investment'')]]
      else [])
     @
     (if consensus_confidence a \<ge> 60 \<and> consensus_confidence a < 75 then
        [[Text (check_mark @ js '' STRONG HOLD - Keep the stock'')],
         [Text (bullet @ js '' ''), Num (consensus_confidence a), Text (js ''% confidence - Good signal'')],
         [Text (bullet @ js '' If you own it, definitely hold'')],
         [Text (bullet @ js '' Don'' @ [0x27] @ js ''t panic sell'')]]
      else [])
     @
     (if consensus_confidence a \<ge> 45 \<and> consensus_confidence a < 60 then
        [[Text (warn @ js '' MODERATE HOLD - Decide carefully'')],
         [Text (bullet @ js '' ''), Num (consensus_confidence a), Text (js ''% confidence - Mixed signals'')],
         [Text (bullet @ js '' If you own it, you can hold but monitor closely'')],
         [Text (bullet @ js '' Look for better opportunities'')]]
      else [])
     @
     (if consensus_confidence a \<ge> 30 \<and> consensus_confidence a < 45 then
        [[Text (warn @ js '' CONSIDER SELLING - Think about exit'')],
         [Text (bullet @ js '' ''), Num (consensus_confidence a), Text (js ''% confidence - Weak signals'')],
         [Text (bullet @ js '' Consider partial exit or set stop-loss'')]]
      else [])
     @
     (if consensus_confidence a < 30 then
        [[Text (cross_mark @ js '' STRONG SELL - Exit quickly'')],
         [Text (bullet @ js '' ''), Num (consensus_confidence a), Text (js ''% confidence - Very weak'')],
         [Text (bullet @ js '' Create an exit strategy as soon as possible'')]]
      else [])"

section \<open>Sample states and payloads\<close>

text \<open>
  Concrete inputs for the examples below. \<open>ready_state\<close> is the state after both startup
  probes answered (healthy, not limited) and a name was typed; \<open>limited_state n\<close> is that
  state after a probe reported a limit with \<open>n\<close> seconds remaining.
\<close>

definition ready_state :: "jsstring \<Rightarrow> app_state" where
  "ready_state name = initial_state\<lparr>stockName := name,
     backendStatus := Some \<lparr>status = js ''healthy'', api_key_configured = Some True, health_error = None\<rparr>,
     rateLimit := Some \<lparr>is_limited = False, message = None, seconds_remaining = None\<rparr>\<rparr>"

definition limited_state :: "int \<Rightarrow> app_state" where
  "limited_state n = fst (checkRateLimit (ready_state [])
     (Response 200 (Json \<lparr>is_limited = True, message = Some (js ''Rate limit exceeded''), seconds_remaining = Some n\<rparr>)))"

definition not_limited :: rate_limit_data where
  "not_limited = \<lparr>is_limited = False, message = None, seconds_remaining = None\<rparr>"

definition error_body :: "jsstring \<Rightarrow> payload" where
  "error_body d = \<lparr>detail = Some d, consensus_recommendation = [], consensus_confidence = 0\<rparr>"

definition sample_analysis :: "jsstring \<Rightarrow> int \<Rightarrow> payload" where
  "sample_analysis rec c = \<lparr>detail = None, consensus_recommendation = rec, consensus_confidence = c\<rparr>"

text \<open>The \<open>stock_name\<close> values of the analysis requests in a list of requests.\<close>

fun stock_names :: "request list \<Rightarrow> jsstring list" where
  "stock_names [] = []"
| "stock_names (PostAnalyze n # rs) = n # stock_names rs"
| "stock_names (r # rs) = stock_names rs"

section \<open>Auxiliary facts\<close>

lemma trim_empty_iff: "trim s = [] \<longleftrightarrow> (\<forall>u\<in>set s. is_ws u)"
proof
  assume "trim s = []"
  then have "dropWhile is_ws (rev (dropWhile is_ws s)) = []"
    by (simp add: trim_def)
  then have "\<forall>u\<in>set (dropWhile is_ws s). is_ws u"
    by (simp add: dropWhile_eq_Nil_conv)
  then have "dropWhile is_ws s = []"
    by (metis hd_dropWhile list.set_sel(1))
  then show "\<forall>u\<in>set s. is_ws u"
    by (simp add: dropWhile_eq_Nil_conv)
next
  assume "\<forall>u\<in>set s. is_ws u"
  then show "trim s = []"
    by (auto simp: trim_def dest: set_dropWhileD)
qed

lemma labels_distinct:
  "distinct [label_STRONG, label_MODERATE_STRONG, label_MODERATE, label_WEAK, label_STRONG_CAUTION]"
  by (simp add: label_STRONG_def label_MODERATE_STRONG_def label_MODERATE_def label_WEAK_def
      label_STRONG_CAUTION_def fire_def check_mark_def warn_def cross_mark_def js_def)

lemma ready_state_reachable:
  "ready_state n =
     (fst (checkRateLimit
        (fst (checkBackendHealth initial_state
           (Response 200 (Json \<lparr>status = js ''healthy'', api_key_configured = Some True, health_error = None\<rparr>))))
        (Response 200 (Json not_limited))))\<lparr>stockName := n\<rparr>"
  by (simp add: ready_state_def checkRateLimit_def checkBackendHealth_def not_limited_def initial_state_def)

lemma ready_state_gate: "healthy (ready_state n) \<and> \<not> limited (ready_state n) \<and> \<not> loading (ready_state n)"
  by (simp add: ready_state_def initial_state_def healthy_def limited_def)

lemma analyzeStock_try_requests:
  "snd (snd (analyzeStock_try p resp rl)) = [] \<or> snd (snd (analyzeStock_try p resp rl)) = [GetRateLimit]"
  by (auto simp: analyzeStock_try_def checkRateLimit_def split: fetch_result.splits parsed.splits prod.splits)

lemma analyzeStock_resume_requests:
  "snd (analyzeStock_resume p resp rl) = snd (snd (analyzeStock_try p resp rl))"
  by (simp add: analyzeStock_resume_def split: prod.splits sum.splits)








section \<open>Strength tiers\<close>

text \<open>
  C1. For a confidence between 0 and 100 the strength label is the one of the tier table:
  STRONG on [75,100], MODERATE-STRONG on [60,75), MODERATE on [45,60), WEAK on [30,45),
  STRONG CAUTION on [0,30). The five labels are pairwise different, so exactly one tier
  applies, and each of 30, 45, 60 and 75 belongs to the tier above it.
\<close>

theorem strength_label_tiers:
  assumes "0 \<le> c" and "c \<le> 100"
  shows "(strength_label c = label_STRONG \<longleftrightarrow> 75 \<le> c \<and> c \<le> 100)
       \<and> (strength_label c = label_MODERATE_STRONG \<longleftrightarrow> 60 \<le> c \<and> c < 75)
       \<and> (strength_label c = label_MODERATE \<longleftrightarrow> 45 \<le> c \<and> c < 60)
       \<and> (strength_label c = label_WEAK \<longleftrightarrow> 30 \<le> c \<and> c < 45)
       \<and> (strength_label c = label_STRONG_CAUTION \<longleftrightarrow> 0 \<le> c \<and> c < 30)
       \<and> strength_label 30 = label_WEAK \<and> strength_label 45 = label_MODERATE
       \<and> strength_label 60 = label_MODERATE_STRONG \<and> strength_label 75 = label_STRONG"
  using assms labels_distinct by (auto simp: strength_label_def)

theorem strength_label_tiers_witness:
  "(0::int) \<le> 74 \<and> (74::int) \<le> 100 \<and> strength_label 74 = label_MODERATE_STRONG
     \<and> strength_label 75 = label_STRONG"
  using strength_label_tiers [of 74] by simp

section \<open>Admission gate closed\<close>

text \<open>
  C2. When the backend is not healthy, or the rate limit is active, or a request is in
  flight (\<open>loading\<close>), a click on the Analyze button and a key press in the input both
  leave the state as it is and issue no request. The example is the in-flight state that
  \<open>analyzeStock\<close> itself sets up: a second submission from it issues nothing.
\<close>

theorem gate_closed_no_submission:
  assumes "\<not> healthy s \<or> limited s \<or> loading s"
  shows "clickAnalyze s resp rl = (s, []) \<and> handleKeyPress s key resp rl = (s, [])"
  using assms by (auto simp: clickAnalyze_def handleKeyPress_def button_disabled_def)

theorem gate_closed_no_submission_witness:
  "analyzeStock_begin (ready_state (js ''TCS'')) =
     Inr ((ready_state (js ''TCS''))\<lparr>loading := True, error := [], analysis := None\<rparr>, PostAnalyze (js ''TCS''))
   \<and> loading ((ready_state (js ''TCS''))\<lparr>loading := True, error := [], analysis := None\<rparr>)
   \<and> clickAnalyze ((ready_state (js ''TCS''))\<lparr>loading := True, error := [], analysis := None\<rparr>)
        (Rejected (js ''Failed to fetch'')) (Rejected (js ''Failed to fetch''))
      = ((ready_state (js ''TCS''))\<lparr>loading := True, error := [], analysis := None\<rparr>, [])
   \<and> handleKeyPress ((ready_state (js ''TCS''))\<lparr>loading := True, error := [], analysis := None\<rparr>) (js ''Enter'')
        (Rejected (js ''Failed to fetch'')) (Rejected (js ''Failed to fetch''))
      = ((ready_state (js ''TCS''))\<lparr>loading := True, error := [], analysis := None\<rparr>, [])"
proof -
  have t: "trim (stockName (ready_state (js ''TCS''))) \<noteq> []"
    by (simp add: ready_state_def trim_def js_def is_ws_def)
  have l: "loading ((ready_state (js ''TCS''))\<lparr>loading := True, error := [], analysis := None\<rparr>)"
    by simp
  show ?thesis
    using t l gate_closed_no_submission [of "(ready_state (js ''TCS''))\<lparr>loading := True, error := [], analysis := None\<rparr>"]
    by (simp add: analyzeStock_begin_def ready_state_def)
qed

section \<open>Rate-limited response\<close>

text \<open>
  C3, as stated, fails: the message shown after a 429 response is chosen by the
  \<open>catch\<close> block from the text of the detail, so a detail that contains \<open>API key\<close>
  yields the fixed API-key message, which does not carry the detail.
\<close>

theorem rate_limited_detail_counterexample:
  "error (fst (analyzeStock (ready_state (js ''TCS''))
      (Response 429 (Json (error_body (js ''API key quota exceeded'')))) (Response 200 (Json not_limited))))
     = warn @ js '' API key not configured.''
   \<and> \<not> includes_str (warn @ js '' API key not configured.'') (js ''API key quota exceeded'')"
  by (simp add: analyzeStock_def analyzeStock_begin_def analyzeStock_resume_def analyzeStock_try_def
      analyzeStock_catch_def error_data_message_def error_body_def checkRateLimit_def not_limited_def
      ready_state_def initial_state_def ok_def trim_def is_ws_def warn_def js_def)

text \<open>
  C3, amended. For a submission (input not empty after trimming) whose response has
  status 429 and a body that parses to an object (its \<open>detail\<close>, when present, a string),
  exactly one rate-limit probe follows the analysis request; the final state is the one
  the probe leaves, not loading, with the error chosen from the detail:
  a detail that contains \<open>Failed to fetch\<close> gives the connectivity message; otherwise a
  detail that contains \<open>API key\<close> gives the API-key message; any other non-empty detail
  gives \<open>Analysis error occurred. \<close> followed by the detail; an absent or empty detail
  gives \<open>Analysis error occurred. Analysis failed\<close>.
\<close>

theorem rate_limited_probe_once:
  assumes "trim (stockName s) \<noteq> []"
  shows "snd (analyzeStock s (Response 429 (Json errorData)) rl) = [PostAnalyze (stockName s), GetRateLimit]
       \<and> fst (analyzeStock s (Response 429 (Json errorData)) rl)
           = (fst (checkRateLimit (s\<lparr>loading := True, error := [], analysis := None\<rparr>) rl))
               \<lparr>error := analyzeStock_catch (error_data_message errorData), loading := False\<rparr>
       \<and> (\<forall>d. detail errorData = Some d \<and> d \<noteq> [] \<and> \<not> includes_str d (js ''Failed to fetch'')
              \<and> \<not> includes_str d (js ''API key'')
            \<longrightarrow> error (fst (analyzeStock s (Response 429 (Json errorData)) rl))
                  = js ''Analysis error occurred. '' @ d)
       \<and> (\<forall>d. detail errorData = Some d \<and> d \<noteq> [] \<and> includes_str d (js ''Failed to fetch'')
            \<longrightarrow> error (fst (analyzeStock s (Response 429 (Json errorData)) rl))
                  = warn @ js '' Cannot connect to backend server. Is backend running?'')
       \<and> (\<forall>d. detail errorData = Some d \<and> d \<noteq> [] \<and> \<not> includes_str d (js ''Failed to fetch'')
              \<and> includes_str d (js ''API key'')
            \<longrightarrow> error (fst (analyzeStock s (Response 429 (Json errorData)) rl))
                  = warn @ js '' API key not configured.'')
       \<and> (detail errorData = None \<or> detail errorData = Some []
            \<longrightarrow> error (fst (analyzeStock s (Response 429 (Json errorData)) rl))
                  = js ''Analysis error occurred. Analysis failed'')
       \<and> loading (fst (analyzeStock s (Response 429 (Json errorData)) rl)) = False
       \<and> analysis (fst (analyzeStock s (Response 429 (Json errorData)) rl)) = None"
proof -
  let ?r = "analyzeStock s (Response 429 (Json errorData)) rl"
  let ?p = "s\<lparr>loading := True, error := [], analysis := None\<rparr>"
  have st: "fst ?r = (fst (checkRateLimit ?p rl))
      \<lparr>error := analyzeStock_catch (error_data_message errorData), loading := False\<rparr>"
    and rq: "snd ?r = [PostAnalyze (stockName s), GetRateLimit]"
    using assms
    by (auto simp: analyzeStock_def analyzeStock_begin_def analyzeStock_resume_def analyzeStock_try_def
        ok_def checkRateLimit_def split: prod.splits)
  have e: "error (fst ?r) = analyzeStock_catch (error_data_message errorData)"
    by (simp add: st)
  have keep: "analysis (fst (checkRateLimit ?p rl)) = None"
    by (simp add: checkRateLimit_def split: fetch_result.splits parsed.splits option.splits)
  have fallback: "analyzeStock_catch (js ''Analysis failed'') = js ''Analysis error occurred. Analysis failed''"
    by (simp add: analyzeStock_catch_def js_def)
  have c1: "\<forall>d. detail errorData = Some d \<and> d \<noteq> [] \<and> \<not> includes_str d (js ''Failed to fetch'')
      \<and> \<not> includes_str d (js ''API key'')
      \<longrightarrow> error (fst ?r) = js ''Analysis error occurred. '' @ d"
    by (simp add: e analyzeStock_catch_def error_data_message_def)
  have c2: "\<forall>d. detail errorData = Some d \<and> d \<noteq> [] \<and> includes_str d (js ''Failed to fetch'')
      \<longrightarrow> error (fst ?r) = warn @ js '' Cannot connect to backend server. Is backend running?''"
    by (simp add: e analyzeStock_catch_def error_data_message_def)
  have c3: "\<forall>d. detail errorData = Some d \<and> d \<noteq> [] \<and> \<not> includes_str d (js ''Failed to fetch'')
      \<and> includes_str d (js ''API key'')
      \<longrightarrow> error (fst ?r) = warn @ js '' API key not configured.''"
    by (simp add: e analyzeStock_catch_def error_data_message_def)
  have c4: "detail errorData = None \<or> detail errorData = Some []
      \<longrightarrow> error (fst ?r) = js ''Analysis error occurred. Analysis failed''"
    by (auto simp: e error_data_message_def fallback)
  have l: "loading (fst ?r) = False"
    by (simp add: st)
  have a: "analysis (fst ?r) = None"
    by (simp add: st keep)
  from rq st c1 c2 c3 c4 l a show ?thesis by blast
qed

theorem rate_limited_probe_once_witness:
  "trim (stockName (ready_state (js ''TCS''))) \<noteq> []
   \<and> snd (analyzeStock (ready_state (js ''TCS'')) (Response 429 (Json (error_body (js ''Too many requests''))))
        (Response 200 (Json not_limited))) = [PostAnalyze (stockName (ready_state (js ''TCS''))), GetRateLimit]
   \<and> error (fst (analyzeStock (ready_state (js ''TCS'')) (Response 429 (Json (error_body (js ''Too many requests''))))
        (Response 200 (Json not_limited)))) = js ''Analysis error occurred. '' @ js ''Too many requests''
   \<and> error (fst (analyzeStock (ready_state (js ''TCS'')) (Response 429 (Json (error_body (js ''Failed to fetch quota''))))
        (Response 200 (Json not_limited)))) = warn @ js '' Cannot connect to backend server. Is backend running?''
   \<and> error (fst (analyzeStock (ready_state (js ''TCS'')) (Response 429 (Json (error_body (js ''API key quota exceeded''))))
        (Response 200 (Json not_limited)))) = warn @ js '' API key not configured.''
   \<and> error (fst (analyzeStock (ready_state (js ''TCS'')) (Response 429 (Json (sample_analysis [] 0)))
        (Response 200 (Json not_limited)))) = js ''Analysis error occurred. Analysis failed''"
proof -
  have h: "trim (stockName (ready_state (js ''TCS''))) \<noteq> []"
    by (simp add: ready_state_def trim_def js_def is_ws_def)
  have d1: "detail (error_body (js ''Too many requests'')) = Some (js ''Too many requests'')
         \<and> js ''Too many requests'' \<noteq> []
         \<and> \<not> includes_str (js ''Too many requests'') (js ''Failed to fetch'')
         \<and> \<not> includes_str (js ''Too many requests'') (js ''API key'')"
    by (simp add: error_body_def js_def)
  have d2: "detail (error_body (js ''Failed to fetch quota'')) = Some (js ''Failed to fetch quota'')
         \<and> js ''Failed to fetch quota'' \<noteq> []
         \<and> includes_str (js ''Failed to fetch quota'') (js ''Failed to fetch'')"
    by (simp add: error_body_def js_def)
  have d3: "detail (error_body (js ''API key quota exceeded'')) = Some (js ''API key quota exceeded'')
         \<and> js ''API key quota exceeded'' \<noteq> []
         \<and> \<not> includes_str (js ''API key quota exceeded'') (js ''Failed to fetch'')
         \<and> includes_str (js ''API key quota exceeded'') (js ''API key'')"
    by (simp add: error_body_def js_def)
  have d4: "detail (sample_analysis [] 0) = None"
    by (simp add: sample_analysis_def)
  note t = rate_limited_probe_once [OF h, where rl = "Response 200 (Json not_limited)"]
  have w0: "snd (analyzeStock (ready_state (js ''TCS'')) (Response 429 (Json (error_body (js ''Too many requests''))))
        (Response 200 (Json not_limited))) = [PostAnalyze (stockName (ready_state (js ''TCS''))), GetRateLimit]"
    using t [where errorData = "error_body (js ''Too many requests'')"] by (rule conjunct1)
  have w1: "error (fst (analyzeStock (ready_state (js ''TCS'')) (Response 429 (Json (error_body (js ''Too many requests''))))
        (Response 200 (Json not_limited)))) = js ''Analysis error occurred. '' @ js ''Too many requests''"
    using d1 t [where errorData = "error_body (js ''Too many requests'')"] by blast
  have w2: "error (fst (analyzeStock (ready_state (js ''TCS'')) (Response 429 (Json (error_body (js ''Failed to fetch quota''))))
        (Response 200 (Json not_limited)))) = warn @ js '' Cannot connect to backend server. Is backend running?''"
    using d2 t [where errorData = "error_body (js ''Failed to fetch quota'')"] by blast
  have w3: "error (fst (analyzeStock (ready_state (js ''TCS'')) (Response 429 (Json (error_body (js ''API key quota exceeded''))))
        (Response 200 (Json not_limited)))) = warn @ js '' API key not configured.''"
    using d3 t [where errorData = "error_body (js ''API key quota exceeded'')"] by blast
  have w4: "error (fst (analyzeStock (ready_state (js ''TCS'')) (Response 429 (Json (sample_analysis [] 0)))
        (Response 200 (Json not_limited)))) = js ''Analysis error occurred. Analysis failed''"
    using d4 t [where errorData = "sample_analysis [] 0"] by blast
  from h w0 w1 w2 w3 w4 show ?thesis
    by (intro conjI)
qed

text \<open>
  A 429 response whose body does not parse throws before the probe is reached: only the
  analysis request is issued.
\<close>

lemma unparseable_429_no_probe:
  "trim (stockName s) \<noteq> [] \<Longrightarrow>
     snd (analyzeStock s (Response 429 (NotJson m)) rl) = [PostAnalyze (stockName s)]"
  by (simp add: analyzeStock_def analyzeStock_begin_def analyzeStock_resume_def analyzeStock_try_def ok_def)

section \<open>Request body\<close>

text \<open>
  C4, as stated, fails: trimming is used only for the emptiness test. The input
  \<open>" TCS "\<close> is sent with its blanks.
\<close>

theorem request_untrimmed_counterexample:
  "snd (analyzeStock (ready_state (js '' TCS '')) (Rejected (js ''Failed to fetch'')) (Rejected []))
     = [PostAnalyze (js '' TCS '')]
   \<and> trim (js '' TCS '') = js ''TCS''
   \<and> PostAnalyze (js '' TCS '') \<noteq> PostAnalyze (trim (js '' TCS ''))"
  by (simp add: analyzeStock_def analyzeStock_begin_def analyzeStock_resume_def analyzeStock_try_def
      ready_state_def initial_state_def trim_def is_ws_def js_def)

text \<open>
  C4, amended. For an input that is not empty after trimming, exactly one analysis request
  is issued and its \<open>stock_name\<close> is the input as typed, not trimmed.
\<close>

theorem request_carries_input:
  assumes "trim (stockName s) \<noteq> []"
  shows "stock_names (snd (analyzeStock s resp rl)) = [stockName s]"
proof -
  let ?p = "s\<lparr>loading := True, error := [], analysis := None\<rparr>"
  have b: "analyzeStock_begin s = Inr (?p, PostAnalyze (stockName s))"
    using assms by (simp add: analyzeStock_begin_def)
  have "snd (analyzeStock s resp rl) = PostAnalyze (stockName s) # snd (snd (analyzeStock_try ?p resp rl))"
    using analyzeStock_resume_requests [of ?p resp rl]
    by (auto simp: analyzeStock_def b split: prod.splits)
  moreover have "stock_names (snd (snd (analyzeStock_try ?p resp rl))) = []"
    using analyzeStock_try_requests [of ?p resp rl] by auto
  ultimately show ?thesis by simp
qed

theorem request_carries_input_witness:
  "trim (stockName (ready_state (js '' TCS ''))) \<noteq> []
   \<and> stock_names (snd (analyzeStock (ready_state (js '' TCS '')) (Rejected []) (Rejected []))) = [js '' TCS '']"
proof -
  have h: "trim (stockName (ready_state (js '' TCS ''))) \<noteq> []"
    by (simp add: ready_state_def trim_def js_def is_ws_def)
  have n: "stockName (ready_state (js '' TCS '')) = js '' TCS ''"
    by (simp add: ready_state_def)
  show ?thesis
    using h n request_carries_input [OF h, of "Rejected []" "Rejected []"] by simp
qed

section \<open>Polarity\<close>

text \<open>
  C5, as stated, fails for \<open>getRecommendationStyle\<close>: a label other than BUY, HOLD and
  SELL gets a third style (yellow, the Info icon), neither the positive nor the negative one.
\<close>

theorem style_other_label_counterexample:
  "getRecommendationStyle (js ''NEUTRAL'')
     = \<lparr>color = js ''text-yellow-400'', bg = js ''bg-yellow-500/20'', icon = Info\<rparr>
   \<and> getRecommendationStyle (js ''NEUTRAL'') \<noteq> getRecommendationStyle (js ''SELL'')
   \<and> getRecommendationStyle (js ''NEUTRAL'') \<noteq> getRecommendationStyle (js ''BUY'')"
  by (simp add: getRecommendationStyle_def js_def)

text \<open>
  C5, amended. Style and border depend on the label alone, not on the confidence. The
  style is three-valued: the positive style (green text and background, ThumbsUp) exactly
  for BUY and HOLD, the negative style (red text and background, ThumbsDown) exactly for
  SELL, the neutral style (yellow text and background, Info) exactly for every other
  label; the three differ in colour, background and icon. The border class alone is
  binary: green exactly for BUY and HOLD, red for every other label.
\<close>

theorem polarity_from_label:
  "recStyle (a\<lparr>consensus_confidence := c\<rparr>) = recStyle a
   \<and> border_class (a\<lparr>consensus_confidence := c\<rparr>) = border_class a
   \<and> (icon (recStyle a) = ThumbsUp \<longleftrightarrow>
        consensus_recommendation a = js ''BUY'' \<or> consensus_recommendation a = js ''HOLD'')
   \<and> (icon (recStyle a) = ThumbsDown \<longleftrightarrow> consensus_recommendation a = js ''SELL'')
   \<and> (icon (recStyle a) = Info \<longleftrightarrow>
        \<not> (consensus_recommendation a = js ''BUY'' \<or> consensus_recommendation a = js ''HOLD''
           \<or> consensus_recommendation a = js ''SELL''))
   \<and> (border_class a = js ''border-green-400/50'' \<longleftrightarrow>
        consensus_recommendation a = js ''BUY'' \<or> consensus_recommendation a = js ''HOLD'')
   \<and> (border_class a = js ''border-red-400/50'' \<longleftrightarrow>
        \<not> (consensus_recommendation a = js ''BUY'' \<or> consensus_recommendation a = js ''HOLD''))
   \<and> (recStyle a = \<lparr>color = js ''text-green-400'', bg = js ''bg-green-500/20'', icon = ThumbsUp\<rparr> \<longleftrightarrow>
        consensus_recommendation a = js ''BUY'' \<or> consensus_recommendation a = js ''HOLD'')
   \<and> (recStyle a = \<lparr>color = js ''text-red-400'', bg = js ''bg-red-500/20'', icon = ThumbsDown\<rparr> \<longleftrightarrow>
        consensus_recommendation a = js ''SELL'')
   \<and> (recStyle a = \<lparr>color = js ''text-yellow-400'', bg = js ''bg-yellow-500/20'', icon = Info\<rparr> \<longleftrightarrow>
        \<not> (consensus_recommendation a = js ''BUY'' \<or> consensus_recommendation a = js ''HOLD''
           \<or> consensus_recommendation a = js ''SELL''))
   \<and> (color (recStyle a) = js ''text-green-400'' \<longleftrightarrow>
        consensus_recommendation a = js ''BUY'' \<or> consensus_recommendation a = js ''HOLD'')
   \<and> (color (recStyle a) = js ''text-red-400'' \<longleftrightarrow> consensus_recommendation a = js ''SELL'')
   \<and> (color (recStyle a) = js ''text-yellow-400'' \<longleftrightarrow>
        \<not> (consensus_recommendation a = js ''BUY'' \<or> consensus_recommendation a = js ''HOLD''
           \<or> consensus_recommendation a = js ''SELL''))
   \<and> (bg (recStyle a) = js ''bg-green-500/20'' \<longleftrightarrow>
        consensus_recommendation a = js ''BUY'' \<or> consensus_recommendation a = js ''HOLD'')
   \<and> (bg (recStyle a) = js ''bg-red-500/20'' \<longleftrightarrow> consensus_recommendation a = js ''SELL'')
   \<and> (bg (recStyle a) = js ''bg-yellow-500/20'' \<longleftrightarrow>
        \<not> (consensus_recommendation a = js ''BUY'' \<or> consensus_recommendation a = js ''HOLD''
           \<or> consensus_recommendation a = js ''SELL''))"
proof -
  let ?rec = "consensus_recommendation a"
  let ?pos = "?rec = js ''BUY'' \<or> ?rec = js ''HOLD''"
  let ?neg = "?rec = js ''SELL''"
  have d: "js ''SELL'' \<noteq> js ''BUY''" "js ''SELL'' \<noteq> js ''HOLD''"
    "js ''border-green-400/50'' \<noteq> js ''border-red-400/50''"
    by (simp_all add: js_def)
  have col: "js ''text-green-400'' \<noteq> js ''text-red-400''" "js ''text-green-400'' \<noteq> js ''text-yellow-400''"
    "js ''text-red-400'' \<noteq> js ''text-yellow-400''"
    by (simp_all add: js_def)
  have bgs: "js ''bg-green-500/20'' \<noteq> js ''bg-red-500/20''" "js ''bg-green-500/20'' \<noteq> js ''bg-yellow-500/20''"
    "js ''bg-red-500/20'' \<noteq> js ''bg-yellow-500/20''"
    by (simp_all add: js_def)
  have s: "recStyle a =
      (if ?pos then \<lparr>color = js ''text-green-400'', bg = js ''bg-green-500/20'', icon = ThumbsUp\<rparr>
       else if ?neg then \<lparr>color = js ''text-red-400'', bg = js ''bg-red-500/20'', icon = ThumbsDown\<rparr>
       else \<lparr>color = js ''text-yellow-400'', bg = js ''bg-yellow-500/20'', icon = Info\<rparr>)"
    by (simp add: recStyle_def getRecommendationStyle_def)
  have c1: "recStyle (a\<lparr>consensus_confidence := c\<rparr>) = recStyle a"
    and c2: "border_class (a\<lparr>consensus_confidence := c\<rparr>) = border_class a"
    by (simp_all add: recStyle_def border_class_def)
  have i1: "icon (recStyle a) = ThumbsUp \<longleftrightarrow> ?pos"
    and i2: "icon (recStyle a) = ThumbsDown \<longleftrightarrow> ?neg"
    and i3: "icon (recStyle a) = Info \<longleftrightarrow> \<not> (?rec = js ''BUY'' \<or> ?rec = js ''HOLD'' \<or> ?neg)"
    using d by (auto simp: s)
  have b1: "border_class a = js ''border-green-400/50'' \<longleftrightarrow> ?pos"
    and b2: "border_class a = js ''border-red-400/50'' \<longleftrightarrow> \<not> ?pos"
    using d by (auto simp: border_class_def)
  have r1: "recStyle a = \<lparr>color = js ''text-green-400'', bg = js ''bg-green-500/20'', icon = ThumbsUp\<rparr> \<longleftrightarrow> ?pos"
    and r2: "recStyle a = \<lparr>color = js ''text-red-400'', bg = js ''bg-red-500/20'', icon = ThumbsDown\<rparr> \<longleftrightarrow> ?neg"
    and r3: "recStyle a = \<lparr>color = js ''text-yellow-400'', bg = js ''bg-yellow-500/20'', icon = Info\<rparr>
        \<longleftrightarrow> \<not> (?rec = js ''BUY'' \<or> ?rec = js ''HOLD'' \<or> ?neg)"
    using d by (auto simp: s)
  have k1: "color (recStyle a) = js ''text-green-400'' \<longleftrightarrow> ?pos"
    and k2: "color (recStyle a) = js ''text-red-400'' \<longleftrightarrow> ?neg"
    and k3: "color (recStyle a) = js ''text-yellow-400'' \<longleftrightarrow> \<not> (?rec = js ''BUY'' \<or> ?rec = js ''HOLD'' \<or> ?neg)"
    using d col by (auto simp: s)
  have g1: "bg (recStyle a) = js ''bg-green-500/20'' \<longleftrightarrow> ?pos"
    and g2: "bg (recStyle a) = js ''bg-red-500/20'' \<longleftrightarrow> ?neg"
    and g3: "bg (recStyle a) = js ''bg-yellow-500/20'' \<longleftrightarrow> \<not> (?rec = js ''BUY'' \<or> ?rec = js ''HOLD'' \<or> ?neg)"
    using d bgs by (auto simp: s)
  from c1 c2 i1 i2 i3 b1 b2 r1 r2 r3 k1 k2 k3 g1 g2 g3 show ?thesis
    by (intro conjI)
qed

theorem polarity_from_label_witness:
  "recStyle (sample_analysis (js ''BUY'') 10) = recStyle (sample_analysis (js ''BUY'') 90)
   \<and> icon (recStyle (sample_analysis (js ''BUY'') 10)) = ThumbsUp
   \<and> icon (recStyle (sample_analysis (js ''NEUTRAL'') 90)) = Info
   \<and> border_class (sample_analysis (js ''NEUTRAL'') 90) = js ''border-red-400/50''
   \<and> recStyle (sample_analysis (js ''BUY'') 10)
       = \<lparr>color = js ''text-green-400'', bg = js ''bg-green-500/20'', icon = ThumbsUp\<rparr>
   \<and> recStyle (sample_analysis (js ''SELL'') 90)
       = \<lparr>color = js ''text-red-400'', bg = js ''bg-red-500/20'', icon = ThumbsDown\<rparr>
   \<and> recStyle (sample_analysis (js ''NEUTRAL'') 90)
       = \<lparr>color = js ''text-yellow-400'', bg = js ''bg-yellow-500/20'', icon = Info\<rparr>"
proof -
  have e: "(sample_analysis (js ''BUY'') 90)\<lparr>consensus_confidence := 10\<rparr> = sample_analysis (js ''BUY'') 10"
    by (simp add: sample_analysis_def)
  have b: "consensus_recommendation (sample_analysis (js ''BUY'') 10) = js ''BUY''"
    by (simp add: sample_analysis_def)
  have s: "consensus_recommendation (sample_analysis (js ''SELL'') 90) = js ''SELL''"
    by (simp add: sample_analysis_def)
  have n: "\<not> (consensus_recommendation (sample_analysis (js ''NEUTRAL'') 90) = js ''BUY''
       \<or> consensus_recommendation (sample_analysis (js ''NEUTRAL'') 90) = js ''HOLD''
       \<or> consensus_recommendation (sample_analysis (js ''NEUTRAL'') 90) = js ''SELL'')"
    by (simp add: sample_analysis_def js_def)
  show ?thesis
    using e b s n polarity_from_label [where a = "sample_analysis (js ''BUY'') 90" and c = 10]
      polarity_from_label [where a = "sample_analysis (js ''BUY'') 10" and c = 10]
      polarity_from_label [where a = "sample_analysis (js ''SELL'') 90" and c = 90]
      polarity_from_label [where a = "sample_analysis (js ''NEUTRAL'') 90" and c = 90]
    by metis
qed

section \<open>Probe reporting no limit\<close>

text \<open>
  C6, as stated, fails: \<open>checkRateLimit\<close> writes the countdown only when the result is
  limited with a non-zero \<open>seconds_remaining\<close>. A countdown at 5 is still at 5 after a probe
  that reports no limit.
\<close>

theorem probe_clear_keeps_countdown_counterexample:
  "countdown (limited_state 5) = 5
   \<and> countdown (fst (checkRateLimit (limited_state 5) (Response 200 (Json not_limited)))) = 5
   \<and> countdown (fst (checkRateLimit (limited_state 5) (Response 200 (Json not_limited)))) \<noteq> 0"
  by (simp add: limited_state_def checkRateLimit_def not_limited_def)

text \<open>
  C6, amended. A probe whose result has \<open>is_limited\<close> false replaces \<open>rateLimit\<close> by that
  result, so the limit is no longer active, and leaves the countdown value unchanged.
\<close>

theorem probe_clear_keeps_countdown:
  assumes "\<not> is_limited data"
  shows "checkRateLimit s (Response st (Json data)) = (s\<lparr>rateLimit := Some data\<rparr>, [GetRateLimit])
       \<and> countdown (fst (checkRateLimit s (Response st (Json data)))) = countdown s
       \<and> \<not> limited (fst (checkRateLimit s (Response st (Json data))))"
  using assms by (simp add: checkRateLimit_def limited_def split: option.splits)

theorem probe_clear_keeps_countdown_witness:
  "\<not> is_limited not_limited
   \<and> countdown (fst (checkRateLimit (limited_state 5) (Response 200 (Json not_limited)))) = countdown (limited_state 5)
   \<and> \<not> limited (fst (checkRateLimit (limited_state 5) (Response 200 (Json not_limited))))"
proof -
  have h: "\<not> is_limited not_limited"
    by (simp add: not_limited_def)
  show ?thesis
    using h probe_clear_keeps_countdown [OF h, of "limited_state 5" 200] by blast
qed

section \<open>Countdown run\<close>




section \<open>Empty input\<close>

text \<open>
  C8. When every code unit of the input is white space (the empty input included),
  \<open>analyzeStock\<close> returns before its first request: the only change is the error message,
  no request is issued, \<open>loading\<close> is not set, also when called through the button or the
  key handler.
\<close>

theorem empty_input_rejected:
  assumes "\<forall>u\<in>set (stockName s). is_ws u"
  shows "analyzeStock_begin s = Inl (s\<lparr>error := js ''Please enter a stock name''\<rparr>)
       \<and> analyzeStock s resp rl = (s\<lparr>error := js ''Please enter a stock name''\<rparr>, [])
       \<and> loading (fst (analyzeStock s resp rl)) = loading s
       \<and> snd (clickAnalyze s resp rl) = []
       \<and> snd (handleKeyPress s key resp rl) = []"
proof -
  from assms have "trim (stockName s) = []"
    by (simp add: trim_empty_iff)
  then show ?thesis
    by (simp add: analyzeStock_begin_def analyzeStock_def clickAnalyze_def handleKeyPress_def)
qed

theorem empty_input_rejected_witness:
  "trim (stockName (ready_state (js ''   ''))) = []
   \<and> analyzeStock (ready_state (js ''   '')) (Rejected []) (Rejected [])
       = ((ready_state (js ''   ''))\<lparr>error := js ''Please enter a stock name''\<rparr>, [])
   \<and> \<not> loading (fst (analyzeStock (ready_state (js ''   '')) (Rejected []) (Rejected [])))"
proof -
  have h: "\<forall>u\<in>set (stockName (ready_state (js ''   ''))). is_ws u"
    by (simp add: ready_state_def js_def is_ws_def)
  have l: "\<not> loading (ready_state (js ''   ''))"
    by (simp add: ready_state_gate)
  have e: "trim (stockName (ready_state (js ''   ''))) = []"
    using h by (simp add: trim_empty_iff)
  show ?thesis
    using e l empty_input_rejected [OF h, of "Rejected []" "Rejected []"] by simp
qed

section \<open>Failed probe\<close>

text \<open>
  C9, as stated, fails on the text of the message: the source writes it with a capital R.
\<close>

theorem probe_failure_message_counterexample:
  "rateLimit (fst (checkRateLimit initial_state (Rejected (js ''Failed to fetch''))))
     = Some \<lparr>is_limited = False, message = Some (js ''Rate limit check unavailable''), seconds_remaining = None\<rparr>
   \<and> rateLimit (fst (checkRateLimit initial_state (Rejected (js ''Failed to fetch''))))
     \<noteq> Some \<lparr>is_limited = False, message = Some (js ''rate limit check unavailable''), seconds_remaining = None\<rparr>"
  by (simp add: checkRateLimit_def rate_limit_unavailable_def js_def)

text \<open>
  C9, amended. A probe that is rejected, or whose body does not parse, sets \<open>rateLimit\<close> to
  exactly \<open>{is_limited: false, message: "Rate limit check unavailable"}\<close> and changes
  nothing else; the limit is not active afterwards.
\<close>

theorem probe_failure_fails_open:
  "checkRateLimit s (Rejected m) =
     (s\<lparr>rateLimit := Some \<lparr>is_limited = False, message = Some (js ''Rate limit check unavailable''),
          seconds_remaining = None\<rparr>\<rparr>, [GetRateLimit])
   \<and> checkRateLimit s (Response st (NotJson m)) =
     (s\<lparr>rateLimit := Some \<lparr>is_limited = False, message = Some (js ''Rate limit check unavailable''),
          seconds_remaining = None\<rparr>\<rparr>, [GetRateLimit])
   \<and> \<not> limited (fst (checkRateLimit s (Rejected m)))
   \<and> \<not> limited (fst (checkRateLimit s (Response st (NotJson m))))"
  by (simp add: checkRateLimit_def rate_limit_unavailable_def limited_def)

theorem probe_failure_fails_open_witness:
  "limited (limited_state 5) \<and> \<not> limited (fst (checkRateLimit (limited_state 5) (Rejected (js ''Failed to fetch''))))"
proof -
  have "limited (limited_state 5)"
    by (simp add: limited_state_def checkRateLimit_def limited_def)
  then show ?thesis
    using probe_failure_fails_open [of "limited_state 5" "js ''Failed to fetch''"] by blast
qed

section \<open>Strong tier without BUY\<close>

text \<open>
  C10. With a confidence of at least 75 and a label other than BUY the strength label is
  STRONG and no guidance block is rendered.
\<close>

theorem strong_without_buy_no_guidance:
  assumes "consensus_confidence a \<ge> 75" and "consensus_recommendation a \<noteq> js ''BUY''"
  shows "strength_label (consensus_confidence a) = label_STRONG \<and> guidance a = []"
  using assms by (simp add: strength_label_def guidance_def)

theorem strong_without_buy_no_guidance_witness:
  "consensus_confidence (sample_analysis (js ''HOLD'') 80) \<ge> 75
   \<and> consensus_recommendation (sample_analysis (js ''HOLD'') 80) \<noteq> js ''BUY''
   \<and> strength_label (consensus_confidence (sample_analysis (js ''HOLD'') 80)) = label_STRONG
   \<and> guidance (sample_analysis (js ''HOLD'') 80) = []"
proof -
  have h1: "consensus_confidence (sample_analysis (js ''HOLD'') 80) \<ge> 75"
    by (simp add: sample_analysis_def)
  have h2: "consensus_recommendation (sample_analysis (js ''HOLD'') 80) \<noteq> js ''BUY''"
    by (simp add: sample_analysis_def js_def)
  show ?thesis
    using h1 h2 strong_without_buy_no_guidance [OF h1 h2] by blast
qed

end
